theory Spec2Isabelle
  imports Main "HOL-Library.List_Lexorder" "HOL-Library.Char_ord" "HOL-Library.AList"
begin

section \<open>Python values, exceptions and string primitives\<close>

text \<open>
  The values \<open>json.loads\<close> produces and the analyzer inspects. A Python \<open>str\<close> is a
  \<open>string\<close>, one \<open>char\<close> per code point (code points below 256). A \<open>dict\<close> is an
  association list read with \<open>map_of\<close>. A float is never computed with: it keeps its
  literal.
\<close>

datatype pyval =
    PNone
  | PBool bool
  | PInt int
  | PFloat string
  | PStr string
  | PList "pyval list"
  | PDict "(string \<times> pyval) list"

text \<open>
  The exception classes the source raises or catches, each with its message \<open>str(e)\<close>.
  \<open>JSONDecodeError\<close> is a subclass of \<open>ValueError\<close>; \<open>OtherError\<close> stands for every
  other subclass of \<open>Exception\<close> (network and endpoint errors of the client library).
\<close>

datatype exn =
    ValueError string
  | JSONDecodeError string
  | KeyError string
  | TypeError string
  | AttributeError string
  | IOError string
  | EOFError string
  | OtherError string

fun str_exn :: "exn \<Rightarrow> string" where
  "str_exn (ValueError m) = m"
| "str_exn (JSONDecodeError m) = m"
| "str_exn (KeyError m) = m"
| "str_exn (TypeError m) = m"
| "str_exn (AttributeError m) = m"
| "str_exn (IOError m) = m"
| "str_exn (EOFError m) = m"
| "str_exn (OtherError m) = m"

text \<open>\<open>except ValueError\<close> catches the class and its subclass.\<close>

fun is_ValueError :: "exn \<Rightarrow> bool" where
  "is_ValueError (ValueError m) = True"
| "is_ValueError (JSONDecodeError m) = True"
| "is_ValueError e = False"

text \<open>\<open>str.isspace\<close> on the code points below 256: what \<open>str.strip()\<close> removes.\<close>

definition py_isspace :: "char \<Rightarrow> bool" where
  "py_isspace c = (let n = (of_char c :: nat) in
     (9 \<le> n \<and> n \<le> 13) \<or> (28 \<le> n \<and> n \<le> 32) \<or> n = 133 \<or> n = 160)"

definition py_strip :: "string \<Rightarrow> string" where
  "py_strip s = rev (dropWhile py_isspace (rev (dropWhile py_isspace s)))"

text \<open>\<open>str.find\<close> and \<open>str.rfind\<close> of one character: the index, or -1.\<close>

definition py_find :: "char \<Rightarrow> string \<Rightarrow> int" where
  "py_find c s = (if c \<in> set s then int (length (takeWhile (\<lambda>x. x \<noteq> c) s)) else - 1)"

definition py_rfind :: "char \<Rightarrow> string \<Rightarrow> int" where
  "py_rfind c s =
     (if c \<in> set s then int (length s) - 1 - int (length (takeWhile (\<lambda>x. x \<noteq> c) (rev s)))
      else - 1)"

text \<open>The slice \<open>s[a:b]\<close>: a negative index counts from the end, both are clamped.\<close>

definition py_slice :: "'a list \<Rightarrow> int \<Rightarrow> int \<Rightarrow> 'a list" where
  "py_slice s a b =
     (let n = int (length s);
          lo = (if a < 0 then max 0 (a + n) else min a n);
          hi = (if b < 0 then max 0 (b + n) else min b n)
      in take (nat (hi - lo)) (drop (nat lo) s))"

text \<open>\<open>d.get(k)\<close>: the value, or \<open>None\<close> for a missing key.\<close>

definition dict_get :: "(string \<times> pyval) list \<Rightarrow> string \<Rightarrow> pyval" where
  "dict_get kvs k = (case map_of kvs k of None \<Rightarrow> PNone | Some v \<Rightarrow> v)"

text \<open>
  \<open>isinstance(v, int)\<close> with the value \<open>v\<close> compares as: \<open>bool\<close> is a subclass of
  \<open>int\<close> in Python, \<open>True\<close> is 1 and \<open>False\<close> is 0.
\<close>

fun py_int :: "pyval \<Rightarrow> int option" where
  "py_int (PInt n) = Some n"
| "py_int (PBool b) = Some (if b then 1 else 0)"
| "py_int v = None"

text \<open>The decimal \<open>str(n)\<close> of a natural number and the name \<open>type(v).__name__\<close>.\<close>

fun string_of_nat :: "nat \<Rightarrow> string" where
  "string_of_nat n =
     (if n < 10 then [char_of (48 + n)]
      else string_of_nat (n div 10) @ [char_of (48 + n mod 10)])"

fun type_name :: "pyval \<Rightarrow> string" where
  "type_name PNone = ''NoneType''"
| "type_name (PBool b) = ''bool''"
| "type_name (PInt n) = ''int''"
| "type_name (PFloat f) = ''float''"
| "type_name (PStr s) = ''str''"
| "type_name (PList xs) = ''list''"
| "type_name (PDict kvs) = ''dict''"

text \<open>
  \<open>sep.join(items)\<close> over a list: the items joined, or the \<open>TypeError\<close> of the first
  item that is not a \<open>str\<close>, with the interpreter's message.
\<close>

fun join_items :: "string \<Rightarrow> nat \<Rightarrow> pyval list \<Rightarrow> exn + string" where
  "join_items sep i [] = Inr []"
| "join_items sep i (PStr s # rest) =
     (case join_items sep (Suc i) rest of
        Inl e \<Rightarrow> Inl e
      | Inr t \<Rightarrow> Inr (if rest = [] then s else s @ sep @ t))"
| "join_items sep i (v # rest) =
     Inl (TypeError (''sequence item '' @ string_of_nat i @ '': expected str instance, ''
                     @ type_name v @ '' found''))"

definition py_join :: "string \<Rightarrow> pyval list \<Rightarrow> exn + string" where
  "py_join sep items = join_items sep 0 items"

section \<open>The scorer: validation, fallback and the retry loop\<close>

text \<open>
  AnalysisResult: the three fields the callers read from the dict the scorer returns.
  A score that arrived as \<open>True\<close> is carried as the integer it compares as.
\<close>

record analysis_result =
  score :: int
  summary :: string
  tags :: "pyval list"

text \<open>The field checks of \<open>validate_json_response\<close>, in the source's order.\<close>

definition validate_fields :: "pyval \<Rightarrow> exn + analysis_result" where
  "validate_fields result =
     (case result of
        PDict kvs \<Rightarrow>
          (case py_int (dict_get kvs ''score'') of
             None \<Rightarrow> Inl (ValueError ''Score must be an integer'')
           | Some sc \<Rightarrow>
               if \<not> (1 \<le> sc \<and> sc \<le> 100) then Inl (ValueError ''Score must be between 1-100'')
               else
                 (case dict_get kvs ''summary'' of
                    PStr sm \<Rightarrow>
                      if length (py_strip sm) < 400
                      then Inl (ValueError ''Summary must be at least 400 characters'')
                      else
                        (case dict_get kvs ''tags'' of
                           PList ts \<Rightarrow>
                             if length ts < 3 then Inl (ValueError ''Must provide at least 3 tags'')
                             else Inr \<lparr>score = sc, summary = sm, tags = ts\<rparr>
                         | _ \<Rightarrow> Inl (ValueError ''Tags must be a list''))
                  | _ \<Rightarrow> Inl (ValueError ''Summary must be a string'')))
      | _ \<Rightarrow> Inl (AttributeError ''object has no attribute get''))"

text \<open>
  The text between the first opening and the last closing brace. \<open>end_idx\<close> is
  \<open>rfind + 1\<close>, so the source's test \<open>end_idx == -1\<close> never fires; it is kept as written.
\<close>

definition extract_json :: "string \<Rightarrow> exn + string" where
  "extract_json response_text =
     (let start_idx = py_find CHR ''{'' response_text;
          end_idx = py_rfind CHR ''}'' response_text + 1
      in if start_idx = - 1 \<or> end_idx = - 1 then Inl (ValueError ''No JSON found in response'')
         else Inr (py_slice response_text start_idx end_idx))"

text \<open>
  \<open>json.loads\<close> is the standard library's: the parameter \<open>loads\<close>, which returns the
  decoded value or the message of its \<open>JSONDecodeError\<close>.
\<close>

type_synonym decoder = "string \<Rightarrow> string + pyval"

definition parse_json :: "decoder \<Rightarrow> string \<Rightarrow> exn + pyval" where
  "parse_json loads response_text =
     (case extract_json response_text of
        Inl e \<Rightarrow> Inl e
      | Inr json_str \<Rightarrow>
          (case loads json_str of
             Inl m \<Rightarrow> Inl (JSONDecodeError m)
           | Inr result \<Rightarrow> Inr result))"

text \<open>The handler \<open>except (json.JSONDecodeError, ValueError, KeyError)\<close> re-raises a \<open>ValueError\<close>.\<close>

fun reraise_invalid :: "exn \<Rightarrow> exn" where
  "reraise_invalid (ValueError m) = ValueError (''Invalid JSON response: '' @ m)"
| "reraise_invalid (JSONDecodeError m) = ValueError (''Invalid JSON response: '' @ m)"
| "reraise_invalid (KeyError m) = ValueError (''Invalid JSON response: '' @ m)"
| "reraise_invalid e = e"

definition validate_json_response :: "decoder \<Rightarrow> string \<Rightarrow> exn + analysis_result" where
  "validate_json_response loads response_text =
     (case parse_json loads response_text of
        Inl e \<Rightarrow> Inl (reraise_invalid e)
      | Inr result \<Rightarrow>
          (case validate_fields result of
             Inl e \<Rightarrow> Inl (reraise_invalid e)
           | Inr r \<Rightarrow> Inr r))"

text \<open>\<open>create_fallback_response\<close>: \<open>error_msg\<close> is used when it is neither \<open>None\<close> nor empty.\<close>

definition fallback_tags :: "pyval list" where
  "fallback_tags =
     [PStr ''manual_review_needed'', PStr ''analysis_incomplete'', PStr ''requires_human_assessment'']"

definition fallback_summary :: "string \<Rightarrow> string option \<Rightarrow> string" where
  "fallback_summary fname error_msg =
     ''Analysis of '' @ fname @ '' could not be completed automatically. '' @
     (case error_msg of
        None \<Rightarrow> []
      | Some m \<Rightarrow> if m = [] then [] else ''Error: '' @ m @ ''. '') @
     ''Manual review recommended to assess candidate'' @ [CHR 0x27] @
     ''s qualifications, experience, and fit for the role. '' @
     ''Please review the CV directly to evaluate technical skills, work history, education, and overall presentation. '' @
     ''Consider scheduling an interview if the candidate meets basic requirements based on manual assessment.''"

definition create_fallback_response :: "string \<Rightarrow> string option \<Rightarrow> analysis_result" where
  "create_fallback_response fname error_msg =
     \<lparr>score = 50, summary = fallback_summary fname error_msg, tags = fallback_tags\<rparr>"

text \<open>
  One round trip to the chat endpoint: it raises, or it returns a reply whose content is
  a text or \<open>None\<close>. The endpoint is external, so its outcome for each attempt is given;
  the file handle and the job description only go into the request and are left out.
\<close>

datatype chat_outcome = ChatRaises exn | ChatContent "string option"

datatype event =
    UploadCall string
  | ChatCall string nat
  | DeleteCall string
  | Sleep nat
  | Print string

text \<open>
  The body of the \<open>try\<close> in \<open>analyze_cv_with_openai\<close> after the endpoint has answered:
  the empty-content test, the validation, and the progress line, whose
  \<open>', '.join(result['tags'][:3])\<close> raises on a tag that is not a string.
\<close>

definition attempt_body :: "decoder \<Rightarrow> chat_outcome \<Rightarrow> exn + analysis_result" where
  "attempt_body loads outcome =
     (case outcome of
        ChatRaises e \<Rightarrow> Inl e
      | ChatContent None \<Rightarrow> Inl (ValueError ''Empty response from OpenAI'')
      | ChatContent (Some content) \<Rightarrow>
          if content = [] then Inl (ValueError ''Empty response from OpenAI'')
          else
            (case validate_json_response loads content of
               Inl e \<Rightarrow> Inl e
             | Inr result \<Rightarrow>
                 (case py_join '', '' (take 3 (tags result)) of
                    Inl e \<Rightarrow> Inl e
                  | Inr shown \<Rightarrow> Inr result)))"

text \<open>
  The loop \<open>for attempt in range(max_retries)\<close>. A \<open>ValueError\<close> sleeps two seconds and
  goes on unless the attempt was the last; any other exception returns the fallback with
  its message. A loop that ran out without returning would return \<open>None\<close>.
\<close>

fun analyze_loop ::
  "decoder \<Rightarrow> (nat \<Rightarrow> chat_outcome) \<Rightarrow> string \<Rightarrow> nat \<Rightarrow> nat list
    \<Rightarrow> analysis_result option \<times> event list" where
  "analyze_loop loads chat fname max_retries [] = (None, [])"
| "analyze_loop loads chat fname max_retries (attempt # rest) =
     (case attempt_body loads (chat attempt) of
        Inr result \<Rightarrow> (Some result, [ChatCall fname attempt])
      | Inl e \<Rightarrow>
          if is_ValueError e then
            (if int attempt = int max_retries - 1
             then (Some (create_fallback_response fname None), [ChatCall fname attempt])
             else (case analyze_loop loads chat fname max_retries rest of
                     (r, evs) \<Rightarrow> (r, ChatCall fname attempt # Sleep 2 # evs)))
          else (Some (create_fallback_response fname (Some (str_exn e))),
                [ChatCall fname attempt]))"

definition analyze_cv_with_openai ::
  "decoder \<Rightarrow> (nat \<Rightarrow> chat_outcome) \<Rightarrow> string \<Rightarrow> analysis_result option \<times> event list" where
  "analyze_cv_with_openai loads chat fname =
     (let max_retries = 2 in analyze_loop loads chat fname max_retries [0..<max_retries])"

section \<open>The upload cache\<close>

text \<open>
  A resume file as the analyzer sees it: the last component of its path, whether it is a
  regular file, and the size \<open>stat()\<close> reports.
\<close>

record cv_file =
  name :: string
  is_file :: bool
  st_size :: nat

text \<open>The cache file on disk: absent, not decodable, or holding a stored map.\<close>

datatype cache_disk = Missing | Unreadable | Stored "string \<rightharpoonup> string"

datatype cell = Text string | Number int

text \<open>
  The analyzer's state: the in-memory cache, the cache file, the reports written, and
  the trace of calls to the outside (uploads, chat round trips, deletions, sleeps) together
  with the messages that report a fault to the operator, given without their leading
  pictograph. Progress lines are not traced.
\<close>

record analyzer =
  uploaded_files_cache :: "string \<rightharpoonup> string"
  cache_file :: cache_disk
  reports :: "(string \<times> cell list list) list"
  events :: "event list"

definition emit :: "event list \<Rightarrow> analyzer \<Rightarrow> analyzer" where
  "emit evs s = s\<lparr>events := events s @ evs\<rparr>"

definition load_cache :: "cache_disk \<Rightarrow> (string \<rightharpoonup> string)" where
  "load_cache disk = (case disk of Stored m \<Rightarrow> m | _ \<Rightarrow> Map.empty)"

text \<open>
  How a write of the cache file ends. It goes through; or \<open>open()\<close> fails, and the file
  stays as it was; or the write fails after \<open>open(_, 'w')\<close> has truncated the file, and
  the file is left as the argument says (empty or partial). Both failures raise an
  \<open>IOError\<close>.
\<close>

datatype write_outcome = Written | OpenFails | WriteFails cache_disk

text \<open>
  \<open>save_cache\<close>: the whole map is written; an \<open>IOError\<close> is caught and only warned
  about. \<open>outcome\<close> says how the write ends.
\<close>

definition save_cache :: "write_outcome \<Rightarrow> analyzer \<Rightarrow> analyzer" where
  "save_cache outcome s =
     (case outcome of
        Written \<Rightarrow> s\<lparr>cache_file := Stored (uploaded_files_cache s)\<rparr>
      | OpenFails \<Rightarrow> s
      | WriteFails left \<Rightarrow> s\<lparr>cache_file := left\<rparr>)"

text \<open>
  \<open>upload_file_to_openai\<close>. \<open>create\<close> is the outcome of the files endpoint for a file:
  an exception or the new file id; \<open>written\<close> is how the write of the cache file ends.
  Every exception of the body is caught and gives \<open>None\<close>.
\<close>

definition upload_file_to_openai ::
  "(cv_file \<Rightarrow> exn + string) \<Rightarrow> write_outcome \<Rightarrow> cv_file \<Rightarrow> analyzer
    \<Rightarrow> string option \<times> analyzer" where
  "upload_file_to_openai create written file_path s =
     (let file_key = name file_path in
      case uploaded_files_cache s file_key of
        Some cached \<Rightarrow> (Some cached, s)
      | None \<Rightarrow>
          (let file_size = st_size file_path in
           if file_size > 512 * 1024 * 1024 then (None, s)
           else if file_size < 100 then (None, s)
           else
             (case create file_path of
                Inl e \<Rightarrow> (None, emit [UploadCall file_key] s)
              | Inr new_id \<Rightarrow>
                  (Some new_id,
                   save_cache written
                     ((emit [UploadCall file_key] s)
                        \<lparr>uploaded_files_cache := (uploaded_files_cache s)(file_key \<mapsto> new_id)\<rparr>)))))"

section \<open>Processing one file\<close>

record result_record =
  filename :: string
  r_score :: int
  r_summary :: string
  r_tags :: string
  status :: string
  file_id :: "string option"

text \<open>
  The \<open>try\<close> block of \<open>process_cv\<close>: an upload that gave no handle (or an empty one)
  raises; otherwise the scorer's result becomes a record with status \<open>success\<close>. The
  \<open>', '.join(result['tags'])\<close> raises on a tag that is not a string.
\<close>

definition process_cv_try ::
  "decoder \<Rightarrow> (cv_file \<Rightarrow> exn + string) \<Rightarrow> write_outcome
    \<Rightarrow> (string \<Rightarrow> nat \<Rightarrow> chat_outcome)
    \<Rightarrow> cv_file \<Rightarrow> analyzer \<Rightarrow> (exn + result_record) \<times> analyzer" where
  "process_cv_try loads create written chat file_path s =
     (case upload_file_to_openai create written file_path s of
        (handle, s1) \<Rightarrow>
          (case handle of
             None \<Rightarrow> (Inl (ValueError ''Failed to upload file to OpenAI''), s1)
           | Some h \<Rightarrow>
               if h = [] then (Inl (ValueError ''Failed to upload file to OpenAI''), s1)
               else
                 (case analyze_cv_with_openai loads (chat (name file_path)) (name file_path) of
                    (res, evs) \<Rightarrow>
                      (case res of
                         None \<Rightarrow> (Inl (TypeError ''NoneType object is not subscriptable''), emit evs s1)
                       | Some result \<Rightarrow>
                           (case py_join '', '' (tags result) of
                              Inl e \<Rightarrow> (Inl e, emit evs s1)
                            | Inr joined \<Rightarrow>
                                (Inr \<lparr>filename = name file_path, r_score = score result,
                                      r_summary = summary result, r_tags = joined,
                                      status = ''success'', file_id = Some h\<rparr>,
                                 emit evs s1))))))"

text \<open>
  \<open>process_cv\<close>: the handler \<open>except Exception\<close> turns any exception of the block into
  a record with status \<open>error\<close> and the fallback payload. An exception inside the handler
  would leave the function.
\<close>

definition process_cv ::
  "decoder \<Rightarrow> (cv_file \<Rightarrow> exn + string) \<Rightarrow> write_outcome
    \<Rightarrow> (string \<Rightarrow> nat \<Rightarrow> chat_outcome)
    \<Rightarrow> cv_file \<Rightarrow> analyzer \<Rightarrow> (exn + result_record) \<times> analyzer" where
  "process_cv loads create written chat file_path s =
     (case process_cv_try loads create written chat file_path s of
        (Inr r, s1) \<Rightarrow> (Inr r, s1)
      | (Inl e, s1) \<Rightarrow>
          (let fallback = create_fallback_response (name file_path) (Some (str_exn e)) in
           case py_join '', '' (tags fallback) of
             Inl e' \<Rightarrow> (Inl e', s1)
           | Inr joined \<Rightarrow>
               (Inr \<lparr>filename = name file_path, r_score = score fallback,
                     r_summary = summary fallback, r_tags = joined,
                     status = ''error'', file_id = None\<rparr>,
                s1)))"

section \<open>Ranking and the report\<close>

text \<open>
  The ordering of \<open>run_analysis\<close>: the two comprehensions, then
  \<open>successful.sort(key=score, reverse=True)\<close>. Python's sort is stable and, reversed,
  keeps records of equal key in their original order: the stable sort by the negated score.
\<close>

definition order_results :: "result_record list \<Rightarrow> result_record list" where
  "order_results results =
     (let successful = filter (\<lambda>r. status r = ''success'') results;
          failed = filter (\<lambda>r. status r = ''error'') results
      in sort_key (\<lambda>r. - r_score r) successful @ failed)"

text \<open>\<open>save_to_csv\<close>: the header, then one row per record in the order given.\<close>

definition csv_header :: "cell list" where
  "csv_header = [Text ''filename'', Text ''score'', Text ''summary'', Text ''tags'', Text ''status'']"

definition csv_row :: "result_record \<Rightarrow> cell list" where
  "csv_row r = [Text (filename r), Number (r_score r), Text (r_summary r), Text (r_tags r),
                Text (status r)]"

definition csv_rows :: "result_record list \<Rightarrow> cell list list" where
  "csv_rows results = csv_header # map csv_row results"

definition save_to_csv ::
  "bool \<Rightarrow> string \<Rightarrow> result_record list \<Rightarrow> analyzer \<Rightarrow> (exn + string) \<times> analyzer" where
  "save_to_csv writable timestamp results s =
     (let csv_file = ''results_'' @ timestamp @ ''.csv'' in
      if writable then (Inr csv_file, s\<lparr>reports := reports s @ [(csv_file, csv_rows results)]\<rparr>)
      else (Inl (IOError ''cannot open the report file''), s))"

section \<open>The run: job loader, corpus scanner, batch loop, cleanup\<close>

text \<open>
  What a run meets outside the program: the environment variable, the job file
  (\<open>None\<close> when absent), the entries of the uploads folder in \<open>iterdir()\<close> order, the
  outcomes of the upload and chat endpoints, how a write of the cache file ends, whether the
  report can be written,
  the clock's timestamp and the operator's answer (\<open>None\<close> at end of input).
\<close>

record world =
  env_api_key :: "string option"
  job_txt :: "string option"
  uploads_dir :: "cv_file list"
  files_create :: "cv_file \<Rightarrow> exn + string"
  chat_create :: "string \<Rightarrow> nat \<Rightarrow> chat_outcome"
  cache_write :: write_outcome
  csv_writable :: bool
  now_stamp :: string
  stdin_line :: "string option"

text \<open>How a call ends without a value: \<open>exit(code)\<close> or an exception.\<close>

datatype abort = SysExit int | Raised exn

text \<open>\<open>str.lower()\<close> on the code points below 256.\<close>

definition py_lower_char :: "char \<Rightarrow> char" where
  "py_lower_char c = (let n = (of_char c :: nat) in
     if (65 \<le> n \<and> n \<le> 90) \<or> (192 \<le> n \<and> n \<le> 222 \<and> n \<noteq> 215) then char_of (n + 32) else c)"

definition py_lower :: "string \<Rightarrow> string" where
  "py_lower s = map py_lower_char s"

text \<open>\<open>Path.suffix\<close>: from the last dot of the name, unless the dot is first or last.\<close>

definition py_suffix :: "string \<Rightarrow> string" where
  "py_suffix nm =
     (let i = py_rfind CHR ''.'' nm in
      if 0 < i \<and> i < int (length nm) - 1 then py_slice nm i (int (length nm)) else [])"

definition supported_extensions :: "string list" where
  "supported_extensions = [''.pdf'', ''.docx'']"

text \<open>\<open>get_cv_files\<close>: the regular files with a supported extension, sorted by name.\<close>

definition get_cv_files :: "cv_file list \<Rightarrow> cv_file list" where
  "get_cv_files entries =
     sort_key name
       (filter (\<lambda>f. is_file f \<and> py_lower (py_suffix (name f)) \<in> set supported_extensions) entries)"

definition load_job_description :: "string option \<Rightarrow> analyzer \<Rightarrow> (abort + string) \<times> analyzer" where
  "load_job_description job s =
     (case job of
        None \<Rightarrow>
          (Inl (SysExit 1),
           emit [Print ''job.txt not found'',
                 Print ''Please create job.txt with your job description''] s)
      | Some text \<Rightarrow>
          (let job_desc = py_strip text in
           if length job_desc < 100 then
             (Inl (SysExit 1),
              emit [Print ''Job description too short (minimum 100 characters for accurate analysis)''] s)
           else (Inr job_desc, s)))"

text \<open>The batch loop: one record per file, two seconds of sleep between files.\<close>

fun process_all ::
  "decoder \<Rightarrow> world \<Rightarrow> cv_file list \<Rightarrow> analyzer \<Rightarrow> (exn + result_record list) \<times> analyzer" where
  "process_all loads w [] s = (Inr [], s)"
| "process_all loads w (file_path # rest) s =
     (case process_cv loads (files_create w) (cache_write w) (chat_create w) file_path s of
        (Inl e, s1) \<Rightarrow> (Inl e, s1)
      | (Inr r, s1) \<Rightarrow>
          (case process_all loads w rest (if rest \<noteq> [] then emit [Sleep 2] s1 else s1) of
             (Inl e, s2) \<Rightarrow> (Inl e, s2)
           | (Inr rs, s2) \<Rightarrow> (Inr (r # rs), s2)))"

text \<open>
  \<open>cleanup_uploaded_files\<close>: a deletion per success record with a handle (a failed
  deletion is only logged), then the cache is cleared and saved.
\<close>

definition cleanup_uploaded_files :: "world \<Rightarrow> result_record list \<Rightarrow> analyzer \<Rightarrow> analyzer" where
  "cleanup_uploaded_files w results s =
     save_cache (cache_write w)
       ((emit (concat (map (\<lambda>r. case file_id r of
                                   None \<Rightarrow> []
                                 | Some h \<Rightarrow>
                                     if h \<noteq> [] \<and> status r = ''success'' then [DeleteCall h] else [])
                         results)) s)
          \<lparr>uploaded_files_cache := Map.empty\<rparr>)"

text \<open>
  \<open>run_analysis\<close>. An empty corpus prints two lines and returns. The summary lines are not
  traced. The cleanup question is asked when there is a success; end of input raises.
\<close>

definition run_analysis :: "decoder \<Rightarrow> world \<Rightarrow> analyzer \<Rightarrow> (abort + unit) \<times> analyzer" where
  "run_analysis loads w s =
     (case load_job_description (job_txt w) s of
        (Inl a, s1) \<Rightarrow> (Inl a, s1)
      | (Inr job_description, s1) \<Rightarrow>
          (let cv_files = get_cv_files (uploads_dir w) in
           if cv_files = [] then
             (Inr (),
              emit [Print ''No CV files found in uploads'',
                    Print ''Please add .pdf or .docx files to the uploads folder''] s1)
           else
             (case process_all loads w (if length cv_files > 200 then take 200 cv_files else cv_files) s1 of
                (Inl e, s2) \<Rightarrow> (Inl (Raised e), s2)
              | (Inr results, s2) \<Rightarrow>
                  (let all_results = order_results results;
                       successful = filter (\<lambda>r. status r = ''success'') results in
                   case save_to_csv (csv_writable w) (now_stamp w) all_results s2 of
                     (Inl e, s3) \<Rightarrow> (Inl (Raised e), s3)
                   | (Inr csv_file, s3) \<Rightarrow>
                       if successful = [] then (Inr (), s3)
                       else
                         (case stdin_line w of
                            None \<Rightarrow> (Inl (Raised (EOFError ''EOF when reading a line'')), s3)
                          | Some answer \<Rightarrow>
                              if py_strip (py_lower answer) = ''y''
                              then (Inr (), cleanup_uploaded_files w all_results s3)
                              else (Inr (), s3))))))"

text \<open>
  The constructor: the key from the environment or the source's built-in default (a
  non-empty literal, not repeated here); an empty key exits with 1; the cache is loaded.
\<close>

definition default_api_key :: string where
  "default_api_key = ''sk-default''"

definition init_analyzer :: "world \<Rightarrow> cache_disk \<Rightarrow> abort + analyzer" where
  "init_analyzer w disk =
     (let api_key = (case env_api_key w of None \<Rightarrow> default_api_key | Some k \<Rightarrow> k);
          s = \<lparr>uploaded_files_cache = load_cache disk, cache_file = disk, reports = [], events = []\<rparr>
      in if api_key = [] then Inl (SysExit 1) else Inr s)"

text \<open>
  \<open>main\<close> and \<open>exit(main())\<close>: the process's exit status and the final state. An
  \<open>exit(code)\<close> below passes through \<open>except Exception\<close>; an exception prints the fatal
  error and gives 1; a normal return gives 0.
\<close>

definition main :: "decoder \<Rightarrow> world \<Rightarrow> cache_disk \<Rightarrow> int \<times> event list" where
  "main loads w disk =
     (case init_analyzer w disk of
        Inl (SysExit code) \<Rightarrow>
          (code, [Print ''OPENAI_API_KEY not found in environment variables'',
                  Print ''Please set it in .env file or environment''])
      | Inl (Raised e) \<Rightarrow> (1, [Print (''Fatal error: '' @ str_exn e)])
      | Inr s \<Rightarrow>
          (case run_analysis loads w s of
             (Inl (SysExit code), s1) \<Rightarrow> (code, events s1)
           | (Inl (Raised e), s1) \<Rightarrow> (1, events s1 @ [Print (''Fatal error: '' @ str_exn e)])
           | (Inr u, s1) \<Rightarrow> (0, events s1)))"

section \<open>The service variant's parsing step\<close>

text \<open>
  \<open>python-backend/app.py\<close>, \<open>analyze_cv_with_openai\<close>: the reply is stripped, the same
  extraction and decoding follow, and a failure gives a default object built from the reply.
\<close>

definition app_parse_reply :: "decoder \<Rightarrow> string \<Rightarrow> pyval" where
  "app_parse_reply loads content =
     (let result_text = py_strip content in
      case parse_json loads result_text of
        Inr result \<Rightarrow> result
      | Inl e \<Rightarrow>
          PDict [(''score'', PInt 50),
                 (''summary'', PStr (if length result_text > 800 then take 800 result_text else result_text)),
                 (''tags'', PList [PStr ''general'', PStr ''needs_review''])])"

section \<open>A decoder for the examples\<close>

text \<open>
  The theorems below hold for every decoder. The closed examples need one that runs:
  \<open>json_loads\<close> decodes the JSON texts built from objects, arrays, strings without escape
  sequences, integers, \<open>true\<close>, \<open>false\<close> and \<open>null\<close>, as \<open>json.loads\<close> does (a repeated key
  keeps its last value), and rejects every other text. The message of a rejection is not
  the library's.
\<close>

definition json_ws :: "char \<Rightarrow> bool" where
  "json_ws c = (c = CHR '' '' \<or> c = CHR 0x09 \<or> c = CHR 0x0A \<or> c = CHR 0x0D)"

definition skip_ws :: "string \<Rightarrow> string" where
  "skip_ws s = dropWhile json_ws s"

definition is_digit :: "char \<Rightarrow> bool" where
  "is_digit c = (CHR ''0'' \<le> c \<and> c \<le> CHR ''9'')"

fun scan_string :: "string \<Rightarrow> (string \<times> string) option" where
  "scan_string [] = None"
| "scan_string (c # cs) =
     (if c = CHR 0x22 then Some ([], cs)
      else if c = CHR 0x5C \<or> (of_char c :: nat) < 32 then None
      else (case scan_string cs of None \<Rightarrow> None | Some (t, r) \<Rightarrow> Some (c # t, r)))"

definition digits_value :: "string \<Rightarrow> int" where
  "digits_value ds = foldl (\<lambda>a c. 10 * a + (int (of_char c) - 48)) 0 ds"

definition scan_int :: "string \<Rightarrow> (pyval \<times> string) option" where
  "scan_int s =
     (let neg = (s \<noteq> [] \<and> hd s = CHR ''-'');
          body = (if neg then tl s else s);
          ds = takeWhile is_digit body;
          r = dropWhile is_digit body
      in if ds = [] \<or> (hd ds = CHR ''0'' \<and> length ds > 1) then None
         else if r \<noteq> [] \<and> (hd r = CHR ''.'' \<or> hd r = CHR ''e'' \<or> hd r = CHR ''E'') then None
         else Some (PInt (if neg then - digits_value ds else digits_value ds), r))"

definition scan_word :: "string \<Rightarrow> pyval \<Rightarrow> string \<Rightarrow> (pyval \<times> string) option" where
  "scan_word w v s = (if take (length w) s = w then Some (v, drop (length w) s) else None)"

fun dec_value :: "nat \<Rightarrow> string \<Rightarrow> (pyval \<times> string) option"
  and dec_members :: "nat \<Rightarrow> (string \<times> pyval) list \<Rightarrow> string \<Rightarrow> (pyval \<times> string) option"
  and dec_elements :: "nat \<Rightarrow> pyval list \<Rightarrow> string \<Rightarrow> (pyval \<times> string) option" where
  "dec_value 0 s = None"
| "dec_value (Suc n) s =
     (case skip_ws s of
        [] \<Rightarrow> None
      | c # cs \<Rightarrow>
          if c = CHR ''{'' then
            (if take 1 (skip_ws cs) = ''}'' then Some (PDict [], tl (skip_ws cs))
             else dec_members n [] cs)
          else if c = CHR ''['' then
            (if take 1 (skip_ws cs) = '']'' then Some (PList [], tl (skip_ws cs))
             else dec_elements n [] cs)
          else if c = CHR 0x22 then
            (case scan_string cs of None \<Rightarrow> None | Some (t, r) \<Rightarrow> Some (PStr t, r))
          else if c = CHR ''t'' then scan_word ''true'' (PBool True) (c # cs)
          else if c = CHR ''f'' then scan_word ''false'' (PBool False) (c # cs)
          else if c = CHR ''n'' then scan_word ''null'' PNone (c # cs)
          else scan_int (c # cs))"
| "dec_members 0 acc s = None"
| "dec_members (Suc n) acc s =
     (case skip_ws s of
        [] \<Rightarrow> None
      | c # cs \<Rightarrow>
          if c \<noteq> CHR 0x22 then None
          else
            (case scan_string cs of
               None \<Rightarrow> None
             | Some (k, r) \<Rightarrow>
                 if take 1 (skip_ws r) \<noteq> '':'' then None
                 else
                   (case dec_value n (tl (skip_ws r)) of
                      None \<Rightarrow> None
                    | Some (v, r') \<Rightarrow>
                        if take 1 (skip_ws r') = '','' then
                          dec_members n (AList.update k v acc) (tl (skip_ws r'))
                        else if take 1 (skip_ws r') = ''}'' then
                          Some (PDict (AList.update k v acc), tl (skip_ws r'))
                        else None)))"
| "dec_elements 0 acc s = None"
| "dec_elements (Suc n) acc s =
     (case dec_value n s of
        None \<Rightarrow> None
      | Some (v, r) \<Rightarrow>
          if take 1 (skip_ws r) = '','' then dec_elements n (acc @ [v]) (tl (skip_ws r))
          else if take 1 (skip_ws r) = '']'' then Some (PList (acc @ [v]), tl (skip_ws r))
          else None)"

definition json_loads :: decoder where
  "json_loads s =
     (case dec_value (Suc (length s)) s of
        None \<Rightarrow> Inl ''Expecting value''
      | Some (v, r) \<Rightarrow> if skip_ws r = [] then Inr v else Inl ''Extra data'')"

section \<open>Example inputs\<close>

text \<open>A reply with prose around a valid object whose summary has exactly 400 characters.\<close>

definition summary400 :: string where
  "summary400 = replicate 400 CHR ''a''"

definition reply400 :: string where
  \<open>reply400 = ''Here is my assessment: {"score": 100, "summary": "'' @ summary400 @
     ''", "tags": ["python", "senior", "msc"]} Hope that helps.''\<close>

definition obj400 :: "(string \<times> pyval) list" where
  "obj400 = [(''score'', PInt 100), (''summary'', PStr summary400),
             (''tags'', PList [PStr ''python'', PStr ''senior'', PStr ''msc''])]"

text \<open>The same reply with the JSON value \<open>true\<close> as its score.\<close>

definition reply_true :: string where
  \<open>reply_true = ''{"score": true, "summary": "'' @ summary400 @
     ''", "tags": ["python", "senior", "msc"]}''\<close>

definition obj_true :: "(string \<times> pyval) list" where
  "obj_true = [(''score'', PBool True), (''summary'', PStr summary400),
              (''tags'', PList [PStr ''python'', PStr ''senior'', PStr ''msc''])]"

text \<open>A decoded object with a given score, summary length and number of tags.\<close>

definition reply_obj :: "pyval \<Rightarrow> nat \<Rightarrow> nat \<Rightarrow> pyval" where
  "reply_obj sc n k =
     PDict [(''score'', sc), (''summary'', PStr (replicate n CHR ''a'')),
            (''tags'', PList (replicate k (PStr ''t'')))]"

text \<open>Endpoint behaviours: no content, two invalid replies, a network fault, a valid reply.\<close>

definition no_reply :: "nat \<Rightarrow> chat_outcome" where
  "no_reply attempt = ChatContent None"

definition invalid_replies :: "nat \<Rightarrow> chat_outcome" where
  \<open>invalid_replies attempt =
     (if attempt = 0 then ChatContent (Some ''{"score": 0, "summary": "too low", "tags": []}'')
      else ChatContent (Some ''Sorry, I cannot read this file.''))\<close>

definition network_down :: "nat \<Rightarrow> chat_outcome" where
  "network_down attempt = ChatRaises (OtherError ''Connection error.'')"

definition valid_reply :: "nat \<Rightarrow> chat_outcome" where
  "valid_reply attempt = ChatContent (Some reply400)"

definition result400 :: analysis_result where
  "result400 = \<lparr>score = 100, summary = summary400,
                 tags = [PStr ''python'', PStr ''senior'', PStr ''msc'']\<rparr>"

text \<open>A resume file of a given size, an empty analyzer, one that has the file cached, and an
  upload endpoint that succeeds.\<close>

definition cv_of_size :: "nat \<Rightarrow> cv_file" where
  "cv_of_size n = \<lparr>name = ''cv.pdf'', is_file = True, st_size = n\<rparr>"

definition fresh :: analyzer where
  "fresh = \<lparr>uploaded_files_cache = Map.empty, cache_file = Missing, reports = [], events = []\<rparr>"

definition cached :: analyzer where
  "cached = \<lparr>uploaded_files_cache = [''cv.pdf'' \<mapsto> ''file-cached''],
              cache_file = Stored [''cv.pdf'' \<mapsto> ''file-cached''], reports = [], events = []\<rparr>"

definition upload_ok :: "cv_file \<Rightarrow> exn + string" where
  "upload_ok f = Inr (''file-'' @ name f)"




text \<open>Replies with prose around a small object: without braces in the prose, and with.\<close>

definition fenced_reply :: string where
  \<open>fenced_reply = ''Here is the JSON you asked for: '' @ ''{"score": 7, "tags": ["a"]}'' @
     '' Let me know if you need more.''\<close>

definition braces_in_prose :: string where
  \<open>braces_in_prose = ''Use the {score} field: '' @ ''{"score": 7, "tags": ["a"]}'' @ []\<close>

text \<open>Per-file endpoint behaviours, a failing upload, and a run whose uploads folder holds no
  eligible file (a text file, and a directory named like a PDF).\<close>

definition chat_all_invalid :: "string \<Rightarrow> nat \<Rightarrow> chat_outcome" where
  "chat_all_invalid fname = invalid_replies"

definition chat_network_down :: "string \<Rightarrow> nat \<Rightarrow> chat_outcome" where
  "chat_network_down fname = network_down"

definition upload_fails :: "cv_file \<Rightarrow> exn + string" where
  "upload_fails f = Inl (OtherError ''Connection error.'')"

definition empty_world :: world where
  "empty_world =
     \<lparr>env_api_key = None, job_txt = Some (replicate 120 CHR ''j''),
      uploads_dir = [\<lparr>name = ''notes.txt'', is_file = True, st_size = 2048\<rparr>,
                     \<lparr>name = ''archive.pdf'', is_file = False, st_size = 4096\<rparr>],
      files_create = upload_ok, chat_create = chat_all_invalid, cache_write = Written,
      csv_writable = True, now_stamp = ''20240101_120000'', stdin_line = None\<rparr>"

section \<open>Facts about the string primitives and the validator\<close>

lemma py_strip_id:
  assumes "xs \<noteq> []" "\<not> py_isspace (hd xs)" "\<not> py_isspace (last xs)"
  shows "py_strip xs = xs"
proof -
  have 1: "dropWhile py_isspace xs = xs" using assms by (cases xs) auto
  have 2: "dropWhile py_isspace (rev xs) = rev xs"
    using assms by (cases "rev xs") (auto simp: last_rev hd_rev)
  show ?thesis by (simp add: py_strip_def 1 2)
qed

lemma py_strip_replicate: "\<not> py_isspace c \<Longrightarrow> py_strip (replicate n c) = replicate n c"
proof (cases n)
  case 0
  then show ?thesis by (simp add: py_strip_def)
next
  case (Suc m)
  assume c: "\<not> py_isspace c"
  have "replicate n c \<noteq> []" "hd (replicate n c) = c" "last (replicate n c) = c"
    using Suc by (simp_all del: replicate_Suc)
  with c show ?thesis by (simp add: py_strip_id del: replicate_Suc)
qed

lemma not_space_a: "\<not> py_isspace CHR ''a''"
  by (simp add: py_isspace_def)

lemma length_py_strip: "length (py_strip s) \<le> length s"
  unfolding py_strip_def
  by (metis length_dropWhile_le length_rev order_trans)

lemma validate_fields_Inr_iff:
  "validate_fields (PDict kvs) = Inr r \<longleftrightarrow>
     (\<exists>n s ts. py_int (dict_get kvs ''score'') = Some n \<and> 1 \<le> n \<and> n \<le> 100 \<and>
        dict_get kvs ''summary'' = PStr s \<and> 400 \<le> length (py_strip s) \<and>
        dict_get kvs ''tags'' = PList ts \<and> 3 \<le> length ts \<and>
        r = \<lparr>score = n, summary = s, tags = ts\<rparr>)"
  by (auto simp: validate_fields_def split: option.splits pyval.splits)

lemma validate_fields_Inl:
  "validate_fields (PDict kvs) = Inl e \<Longrightarrow> \<exists>m. e = ValueError m"
  by (auto simp: validate_fields_def split: option.splits pyval.splits if_splits)

lemma validate_fields_sound:
  assumes "validate_fields obj = Inr r"
  shows "1 \<le> score r \<and> score r \<le> 100 \<and> 400 \<le> length (summary r) \<and> 3 \<le> length (tags r)"
proof -
  obtain kvs where k: "obj = PDict kvs"
    using assms by (cases obj) (auto simp: validate_fields_def)
  from assms[unfolded k validate_fields_Inr_iff] obtain n s ts where
    "1 \<le> n" "n \<le> 100" "400 \<le> length (py_strip s)" "3 \<le> length ts"
    "r = \<lparr>score = n, summary = s, tags = ts\<rparr>"
    by blast
  then show ?thesis using length_py_strip[of s] by simp
qed

lemma parse_failure_is_ValueError:
  "parse_json loads t = Inl e \<Longrightarrow> \<exists>m. validate_json_response loads t = Inl (ValueError m)"
  by (auto simp: validate_json_response_def parse_json_def extract_json_def Let_def
        split: sum.splits if_splits)

lemma validate_reply_obj:
  "validate_fields (reply_obj sc n k) =
     (case py_int sc of
        None \<Rightarrow> Inl (ValueError ''Score must be an integer'')
      | Some v \<Rightarrow>
          if \<not> (1 \<le> v \<and> v \<le> 100) then Inl (ValueError ''Score must be between 1-100'')
          else if n < 400 then Inl (ValueError ''Summary must be at least 400 characters'')
          else if k < 3 then Inl (ValueError ''Must provide at least 3 tags'')
          else Inr \<lparr>score = v, summary = replicate n CHR ''a'', tags = replicate k (PStr ''t'')\<rparr>)"
  by (simp add: validate_fields_def reply_obj_def dict_get_def py_strip_replicate not_space_a
        split: option.splits)

lemma parse_reply400: "parse_json json_loads reply400 = Inr (PDict obj400)"
  by code_simp

lemma upt_0_2: "[0..<2] = [0, 1]"
  by (simp add: upt_rec)

lemma analyze_unfold:
  "analyze_cv_with_openai loads chat fname =
     (case attempt_body loads (chat 0) of
        Inr r \<Rightarrow> (Some r, [ChatCall fname 0])
      | Inl e \<Rightarrow>
          if is_ValueError e then
            (case attempt_body loads (chat 1) of
               Inr r \<Rightarrow> (Some r, [ChatCall fname 0, Sleep 2, ChatCall fname 1])
             | Inl e' \<Rightarrow>
                 (Some (create_fallback_response fname (if is_ValueError e' then None else Some (str_exn e'))),
                  [ChatCall fname 0, Sleep 2, ChatCall fname 1]))
          else (Some (create_fallback_response fname (Some (str_exn e))), [ChatCall fname 0]))"
  by (simp add: analyze_cv_with_openai_def upt_0_2 split: sum.splits)

lemma fallback_summary_length:
  "length (fallback_summary fname m) =
     362 + length fname + (case m of None \<Rightarrow> 0 | Some e \<Rightarrow> if e = [] then 0 else 9 + length e)"
  by (simp add: fallback_summary_def split: option.splits)

lemma attempt_body_sound:
  assumes "attempt_body loads outcome = Inr r"
  shows "1 \<le> score r \<and> score r \<le> 100 \<and> 400 \<le> length (summary r) \<and> 3 \<le> length (tags r)"
proof -
  from assms obtain content where "validate_json_response loads content = Inr r"
    by (auto simp: attempt_body_def split: chat_outcome.splits option.splits if_splits sum.splits)
  then obtain obj where "validate_fields obj = Inr r"
    by (auto simp: validate_json_response_def split: sum.splits)
  then show ?thesis by (rule validate_fields_sound)
qed

lemma attempt_invalid_0: "attempt_body json_loads (invalid_replies 0) =
     Inl (ValueError ''Invalid JSON response: Score must be between 1-100'')"
  by code_simp

lemma attempt_invalid_1: "attempt_body json_loads (invalid_replies 1) =
     Inl (ValueError ''Invalid JSON response: No JSON found in response'')"
  by code_simp

lemma attempt_valid_reply: "attempt_body json_loads (valid_reply n) = Inr result400"
proof -
  note h = parse_reply400
  have s: "py_strip summary400 = summary400"
    by (simp add: summary400_def py_strip_replicate not_space_a)
  have l: "length summary400 = 400" by (simp add: summary400_def)
  have v: "validate_fields (PDict obj400) = Inr result400"
    by (simp add: validate_fields_def obj400_def dict_get_def s l result400_def)
  have r: "reply400 \<noteq> []" by (simp add: reply400_def)
  show ?thesis
    by (simp add: attempt_body_def valid_reply_def r validate_json_response_def h v)
       (simp add: result400_def py_join_def)
qed

lemma upload_hit:
  "uploaded_files_cache s (name file_path) = Some h \<Longrightarrow>
   upload_file_to_openai create written file_path s = (Some h, s)"
  by (simp add: upload_file_to_openai_def)

lemma upload_miss:
  "uploaded_files_cache s (name file_path) = None \<Longrightarrow>
   upload_file_to_openai create written file_path s =
     (if st_size file_path > 512 * 1024 * 1024 \<or> st_size file_path < 100 then (None, s)
      else case create file_path of
             Inl e \<Rightarrow> (None, emit [UploadCall (name file_path)] s)
           | Inr new_id \<Rightarrow>
               (Some new_id,
                save_cache written
                  ((emit [UploadCall (name file_path)] s)
                     \<lparr>uploaded_files_cache := (uploaded_files_cache s)(name file_path \<mapsto> new_id)\<rparr>)))"
  by (simp add: upload_file_to_openai_def Let_def)





lemma takeWhile_until:
  "c \<notin> set pre \<Longrightarrow> takeWhile (\<lambda>x. x \<noteq> c) (pre @ c # rest) = pre"
  by (induction pre) auto

lemma find_first: "c \<notin> set pre \<Longrightarrow> py_find c (pre @ c # rest) = int (length pre)"
  by (simp add: py_find_def takeWhile_until)

lemma rfind_last: "c \<notin> set post \<Longrightarrow> py_rfind c (body @ c # post) = int (length body)"
proof -
  assume a: "c \<notin> set post"
  have "takeWhile (\<lambda>x. x \<noteq> c) (rev post @ c # rev body) = rev post"
    using a by (simp add: takeWhile_until)
  then show ?thesis by (simp add: py_rfind_def)
qed

lemma extract_json_embedded:
  assumes "CHR ''{'' \<notin> set pre" "CHR ''}'' \<notin> set post"
  shows "extract_json (pre @ (CHR ''{'' # body @ [CHR ''}'']) @ post) =
         Inr (CHR ''{'' # body @ [CHR ''}''])"
proof -
  let ?t = "pre @ (CHR ''{'' # body @ [CHR ''}'']) @ post"
  have f: "py_find CHR ''{'' ?t = int (length pre)"
    using find_first[OF assms(1), of "body @ [CHR ''}''] @ post"] by simp
  have r: "py_rfind CHR ''}'' ?t = int (length pre) + 1 + int (length body)"
    using rfind_last[OF assms(2), of "pre @ CHR ''{'' # body"] by simp
  have n: "nat (2 + int (length body)) = Suc (Suc (length body))" by simp
  have s: "py_slice ?t (int (length pre)) (int (length pre) + 1 + int (length body) + 1) =
           CHR ''{'' # body @ [CHR ''}'']"
    by (simp add: py_slice_def min_def n)
  show ?thesis
    unfolding extract_json_def Let_def f r using s by simp
qed

lemma extract_json_bare:
  "extract_json (CHR ''{'' # body @ [CHR ''}'']) = Inr (CHR ''{'' # body @ [CHR ''}''])"
  using extract_json_embedded[of "[]" "[]" body] by simp

lemma dropWhile_embedded:
  "J \<noteq> [] \<Longrightarrow> \<not> P (hd J) \<Longrightarrow> dropWhile P (a @ J @ b) = dropWhile P a @ J @ b"
  by (induction a) (auto simp: neq_Nil_conv)

lemma py_strip_embedded:
  assumes "J \<noteq> []" "\<not> py_isspace (hd J)" "\<not> py_isspace (last J)"
  shows "py_strip (pre @ J @ post) =
         dropWhile py_isspace pre @ J @ rev (dropWhile py_isspace (rev post))"
proof -
  have 1: "dropWhile py_isspace (pre @ J @ post) = dropWhile py_isspace pre @ J @ post"
    using assms by (simp add: dropWhile_embedded)
  have 2: "dropWhile py_isspace (rev post @ rev J @ rev (dropWhile py_isspace pre)) =
           dropWhile py_isspace (rev post) @ rev J @ rev (dropWhile py_isspace pre)"
    using assms by (intro dropWhile_embedded) (simp_all add: hd_rev)
  show ?thesis by (simp add: py_strip_def 1 2)
qed

lemma brace_not_space: "\<not> py_isspace CHR ''{''" "\<not> py_isspace CHR ''}''"
  by (simp_all add: py_isspace_def)

lemma loads_small:
  \<open>json_loads ''{"score": 7, "tags": ["a"]}'' =
     Inr (PDict [(''score'', PInt 7), (''tags'', PList [PStr ''a''])])\<close>
  by code_simp

lemma join_fallback_tags:
  "py_join '', '' fallback_tags =
     Inr ''manual_review_needed, analysis_incomplete, requires_human_assessment''"
  by (simp add: py_join_def fallback_tags_def)

lemma analyze_all_invalid:
  "analyze_cv_with_openai json_loads invalid_replies fname =
     (Some (create_fallback_response fname None),
      [ChatCall fname 0, Sleep 2, ChatCall fname 1])"
  unfolding analyze_unfold attempt_invalid_0 attempt_invalid_1 by simp

lemma analyze_network_down:
  "analyze_cv_with_openai json_loads network_down fname =
     (Some (create_fallback_response fname (Some ''Connection error.'')), [ChatCall fname 0])"
  by (simp add: analyze_unfold attempt_body_def network_down_def)

lemma upload_fresh_ok:
  "upload_file_to_openai upload_ok Written (cv_of_size 2048) fresh =
     (Some ''file-cv.pdf'',
      \<lparr>uploaded_files_cache = [''cv.pdf'' \<mapsto> ''file-cv.pdf''],
       cache_file = Stored [''cv.pdf'' \<mapsto> ''file-cv.pdf''], reports = [],
       events = [UploadCall ''cv.pdf'']\<rparr>)"
  by (simp add: upload_file_to_openai_def Let_def fresh_def cv_of_size_def upload_ok_def
        save_cache_def emit_def)

lemma upload_fresh_fails:
  "upload_file_to_openai upload_fails Written (cv_of_size 2048) fresh =
     (None, fresh\<lparr>events := [UploadCall ''cv.pdf'']\<rparr>)"
  by (simp add: upload_file_to_openai_def Let_def fresh_def cv_of_size_def upload_fails_def emit_def)

lemma default_api_key_nonempty: "default_api_key \<noteq> []"
  by (simp add: default_api_key_def)

lemma scan_empty_world: "get_cv_files (uploads_dir empty_world) = []"
  by (simp add: empty_world_def get_cv_files_def py_suffix_def py_rfind_def py_slice_def
        py_lower_def py_lower_char_def supported_extensions_def Let_def)

section \<open>The claims\<close>

text \<open>
  What the validator accepts. When the text between the braces decodes to an object, the
  validator accepts it if
  and only if its score is an integer (as \<open>isinstance(_, int)\<close> sees it: an \<open>int\<close>, or a
  \<open>bool\<close> taken as 0 or 1) between 1 and 100, its summary is a string whose stripped length
  is at least 400, and its tags are a list of at least 3 elements; a rejection is a
  \<open>ValueError\<close>, and so is a reply from which no object can be extracted or decoded.
\<close>

lemma validator_accepts_iff:
  assumes "parse_json loads response_text = Inr (PDict kvs)"
  shows "((\<exists>r. validate_json_response loads response_text = Inr r) \<longleftrightarrow>
            (\<exists>n. py_int (dict_get kvs ''score'') = Some n \<and> 1 \<le> n \<and> n \<le> 100) \<and>
            (\<exists>s. dict_get kvs ''summary'' = PStr s \<and> 400 \<le> length (py_strip s)) \<and>
            (\<exists>ts. dict_get kvs ''tags'' = PList ts \<and> 3 \<le> length ts)) \<and>
         ((\<exists>r. validate_json_response loads response_text = Inr r) \<or>
          (\<exists>m. validate_json_response loads response_text = Inl (ValueError m))) \<and>
         (\<forall>other e. parse_json loads other = Inl e \<longrightarrow>
            (\<exists>m. validate_json_response loads other = Inl (ValueError m)))"
proof -
  have v: "validate_json_response loads response_text =
           (case validate_fields (PDict kvs) of Inl e \<Rightarrow> Inl (reraise_invalid e) | Inr r \<Rightarrow> Inr r)"
    by (simp add: validate_json_response_def assms)
  have a: "(\<exists>r. validate_json_response loads response_text = Inr r) \<longleftrightarrow>
           (\<exists>r. validate_fields (PDict kvs) = Inr r)"
    by (simp add: v split: sum.splits)
  have b: "(\<exists>r. validate_json_response loads response_text = Inr r) \<or>
          (\<exists>m. validate_json_response loads response_text = Inl (ValueError m))"
  proof (cases "validate_fields (PDict kvs)")
    case (Inl e)
    then obtain m where "e = ValueError m" using validate_fields_Inl by blast
    then show ?thesis using Inl by (simp add: v)
  next
    case (Inr r)
    then show ?thesis by (simp add: v)
  qed
  have c: "(\<exists>r. validate_fields (PDict kvs) = Inr r) \<longleftrightarrow>
            (\<exists>n. py_int (dict_get kvs ''score'') = Some n \<and> 1 \<le> n \<and> n \<le> 100) \<and>
            (\<exists>s. dict_get kvs ''summary'' = PStr s \<and> 400 \<le> length (py_strip s)) \<and>
            (\<exists>ts. dict_get kvs ''tags'' = PList ts \<and> 3 \<le> length ts)"
    unfolding validate_fields_Inr_iff by blast
  from a c have d: "(\<exists>r. validate_json_response loads response_text = Inr r) \<longleftrightarrow>
            (\<exists>n. py_int (dict_get kvs ''score'') = Some n \<and> 1 \<le> n \<and> n \<le> 100) \<and>
            (\<exists>s. dict_get kvs ''summary'' = PStr s \<and> 400 \<le> length (py_strip s)) \<and>
            (\<exists>ts. dict_get kvs ''tags'' = PList ts \<and> 3 \<le> length ts)"
    by (rule trans)
  have f: "\<forall>other e. parse_json loads other = Inl e \<longrightarrow>
            (\<exists>m. validate_json_response loads other = Inl (ValueError m))"
    using parse_failure_is_ValueError by blast
  from d b f show ?thesis by (intro conjI)
qed

lemma validator_boundaries:
  "parse_json json_loads reply400 = Inr (PDict obj400) \<and>
   (\<exists>r. validate_json_response json_loads reply400 = Inr r) \<and>
   validate_fields (reply_obj (PInt 0) 400 3) = Inl (ValueError ''Score must be between 1-100'') \<and>
   validate_fields (reply_obj (PInt 101) 400 3) = Inl (ValueError ''Score must be between 1-100'') \<and>
   validate_fields (reply_obj (PInt 1) 400 3) =
     Inr \<lparr>score = 1, summary = replicate 400 CHR ''a'', tags = replicate 3 (PStr ''t'')\<rparr> \<and>
   validate_fields (reply_obj (PInt 100) 400 3) =
     Inr \<lparr>score = 100, summary = replicate 400 CHR ''a'', tags = replicate 3 (PStr ''t'')\<rparr> \<and>
   validate_fields (reply_obj (PInt 50) 399 3) =
     Inl (ValueError ''Summary must be at least 400 characters'') \<and>
   validate_fields (reply_obj (PInt 50) 400 2) = Inl (ValueError ''Must provide at least 3 tags'') \<and>
   validate_fields (reply_obj (PFloat ''50.0'') 400 3) = Inl (ValueError ''Score must be an integer'') \<and>
   validate_fields (reply_obj (PBool True) 400 3) =
     Inr \<lparr>score = 1, summary = replicate 400 CHR ''a'', tags = replicate 3 (PStr ''t'')\<rparr> \<and>
   validate_fields (reply_obj (PBool False) 400 3) = Inl (ValueError ''Score must be between 1-100'') \<and>
   validate_json_response json_loads ''Sorry, I cannot read this file.'' =
     Inl (ValueError ''Invalid JSON response: No JSON found in response'')"
proof -
  note h = parse_reply400
  have n: "validate_json_response json_loads ''Sorry, I cannot read this file.'' =
     Inl (ValueError ''Invalid JSON response: No JSON found in response'')"
    by code_simp
  have s: "py_strip summary400 = summary400"
    by (simp add: summary400_def py_strip_replicate not_space_a)
  have r: "(\<exists>n. py_int (dict_get obj400 ''score'') = Some n \<and> 1 \<le> n \<and> n \<le> 100) \<and>
           (\<exists>s. dict_get obj400 ''summary'' = PStr s \<and> 400 \<le> length (py_strip s)) \<and>
           (\<exists>ts. dict_get obj400 ''tags'' = PList ts \<and> 3 \<le> length ts)"
    by (simp add: obj400_def dict_get_def s) (simp add: summary400_def)
  from validator_accepts_iff[OF h] r
  have "\<exists>r. validate_json_response json_loads reply400 = Inr r" by blast
  with h n show ?thesis by (simp add: validate_reply_obj)
qed

text \<open>
  C3. What the code does where the claim asks for a rejection: a reply whose score is the
  JSON value \<open>true\<close> is not an integer, yet \<open>isinstance(True, int)\<close> holds and
  \<open>1 <= True <= 100\<close> too, so the validator accepts it (as score 1). The bounds 1 and 100,
  the 400 characters and the 3 tags are as the claim says.
\<close>

theorem validator_accepts_boolean_score:
  "parse_json json_loads reply_true = Inr (PDict obj_true) \<and>
   dict_get obj_true ''score'' = PBool True \<and>
   validate_json_response json_loads reply_true =
     Inr \<lparr>score = 1, summary = summary400,
          tags = [PStr ''python'', PStr ''senior'', PStr ''msc'']\<rparr>"
proof -
  have h: "parse_json json_loads reply_true = Inr (PDict obj_true)"
    by code_simp
  have s: "py_strip summary400 = summary400"
    by (simp add: summary400_def py_strip_replicate not_space_a)
  have l: "length summary400 = 400" by (simp add: summary400_def)
  have v: "validate_fields (PDict obj_true) =
     Inr \<lparr>score = 1, summary = summary400,
          tags = [PStr ''python'', PStr ''senior'', PStr ''msc'']\<rparr>"
    by (simp add: validate_fields_def obj_true_def dict_get_def s l)
  have d: "dict_get obj_true ''score'' = PBool True"
    by (simp add: obj_true_def dict_get_def)
  from h v d show ?thesis by (simp add: validate_json_response_def)
qed



text \<open>
  C4, as amended. Every result the scorer returns has a score between 1 and 100 and at
  least 3 tags; its summary has at least 400 characters, or the result is the fallback
  record. The fallback summary has 362 characters plus the file name, plus 9 and the
  message when a non-empty error message is given: it reaches 400 only for long names or
  messages.
\<close>

theorem scorer_result_invariant:
  "(\<forall>r. fst (analyze_cv_with_openai loads chat fname) = Some r \<longrightarrow>
      1 \<le> score r \<and> score r \<le> 100 \<and> 3 \<le> length (tags r) \<and>
      (400 \<le> length (summary r) \<or> (\<exists>m. r = create_fallback_response fname m))) \<and>
   (\<forall>m. length (summary (create_fallback_response fname m)) =
      362 + length fname + (case m of None \<Rightarrow> 0 | Some e \<Rightarrow> if e = [] then 0 else 9 + length e))"
proof -
  have fb: "\<And>m. 1 \<le> score (create_fallback_response fname m) \<and>
       score (create_fallback_response fname m) \<le> 100 \<and>
       3 \<le> length (tags (create_fallback_response fname m))"
    by (simp add: create_fallback_response_def fallback_tags_def)
  have 1: "\<forall>r. fst (analyze_cv_with_openai loads chat fname) = Some r \<longrightarrow>
      1 \<le> score r \<and> score r \<le> 100 \<and> 3 \<le> length (tags r) \<and>
      (400 \<le> length (summary r) \<or> (\<exists>m. r = create_fallback_response fname m))"
    unfolding analyze_unfold
    using fb by (auto split: sum.splits if_splits dest: attempt_body_sound)
  have 2: "\<forall>m. length (summary (create_fallback_response fname m)) =
      362 + length fname + (case m of None \<Rightarrow> 0 | Some e \<Rightarrow> if e = [] then 0 else 9 + length e)"
    by (simp add: create_fallback_response_def fallback_summary_length)
  from 1 2 show ?thesis by (rule conjI)
qed

theorem scorer_result_invariant_witness:
  "fst (analyze_cv_with_openai json_loads valid_reply ''cv.pdf'') = Some result400 \<and>
   1 \<le> score result400 \<and> score result400 \<le> 100 \<and> 3 \<le> length (tags result400) \<and>
   400 \<le> length (summary result400) \<and>
   length (summary (create_fallback_response ''cv.pdf'' (Some ''Connection error.''))) = 394"
proof -
  note t = scorer_result_invariant[of json_loads valid_reply "''cv.pdf''"]
  have f: "fst (analyze_cv_with_openai json_loads valid_reply ''cv.pdf'') = Some result400"
    by (simp add: analyze_unfold attempt_valid_reply)
  have nf: "\<not> (\<exists>m. result400 = create_fallback_response ''cv.pdf'' m)"
    by (simp add: result400_def create_fallback_response_def)
  from t f nf have "1 \<le> score result400 \<and> score result400 \<le> 100 \<and> 3 \<le> length (tags result400) \<and>
      400 \<le> length (summary result400)" by blast
  moreover from t have "length (summary (create_fallback_response ''cv.pdf'' (Some ''Connection error.''))) =
     362 + length ''cv.pdf'' + (case Some ''Connection error.'' of None \<Rightarrow> 0 | Some e \<Rightarrow> if e = [] then 0 else 9 + length e)"
    by blast
  ultimately show ?thesis using f by simp
qed

text \<open>
  The claim as stated fails: for \<open>cv.pdf\<close> and an endpoint that returns no content, the
  scorer returns the fallback record, whose summary has 368 characters.
\<close>

theorem fallback_summary_short_counterexample:
  "fst (analyze_cv_with_openai json_loads no_reply ''cv.pdf'') =
     Some (create_fallback_response ''cv.pdf'' None) \<and>
   length (summary (create_fallback_response ''cv.pdf'' None)) = 368 \<and>
   \<not> 400 \<le> length (summary (create_fallback_response ''cv.pdf'' None))"
proof -
  have "attempt_body json_loads (no_reply 0) = Inl (ValueError ''Empty response from OpenAI'')"
       "attempt_body json_loads (no_reply 1) = Inl (ValueError ''Empty response from OpenAI'')"
    by (simp_all add: attempt_body_def no_reply_def)
  then have "fst (analyze_cv_with_openai json_loads no_reply ''cv.pdf'') =
     Some (create_fallback_response ''cv.pdf'' None)"
    by (simp add: analyze_unfold)
  moreover have "length (summary (create_fallback_response ''cv.pdf'' None)) = 368"
    by (simp add: create_fallback_response_def fallback_summary_length)
  ultimately show ?thesis by simp
qed




text \<open>
  C7, as amended. On a cache miss, the upload call is made exactly for the files of at
  least 100 bytes and at most 512 MiB; a smaller or larger file gets no handle and the
  state is unchanged. A file of exactly 100 bytes is uploaded (the source rejects
  \<open>file_size < 100\<close>).
\<close>

theorem upload_size_bounds:
  assumes "uploaded_files_cache s (name file_path) = None"
  shows "(events (snd (upload_file_to_openai create written file_path s)) =
            events s @ [UploadCall (name file_path)] \<longleftrightarrow>
          100 \<le> st_size file_path \<and> st_size file_path \<le> 512 * 1024 * 1024) \<and>
         (st_size file_path < 100 \<or> 512 * 1024 * 1024 < st_size file_path \<longrightarrow>
          upload_file_to_openai create written file_path s = (None, s)) \<and>
         (\<forall>new_id. st_size file_path = 100 \<and> create file_path = Inr new_id \<longrightarrow>
          fst (upload_file_to_openai create written file_path s) = Some new_id)"
  using assms
  by (auto simp: upload_miss save_cache_def emit_def split: sum.splits write_outcome.splits)

theorem upload_size_bounds_witness:
  "upload_file_to_openai upload_ok Written (cv_of_size 99) fresh = (None, fresh) \<and>
   upload_file_to_openai upload_ok Written (cv_of_size (512 * 1024 * 1024 + 1)) fresh = (None, fresh) \<and>
   events (snd (upload_file_to_openai upload_ok Written (cv_of_size (512 * 1024 * 1024)) fresh)) =
     [UploadCall ''cv.pdf'']"
proof -
  have m: "\<And>n. uploaded_files_cache fresh (name (cv_of_size n)) = None"
    by (simp add: fresh_def)
  note a = upload_size_bounds[OF m, of upload_ok Written 99]
  note b = upload_size_bounds[OF m, of upload_ok Written "512 * 1024 * 1024 + 1"]
  note c = upload_size_bounds[OF m, of upload_ok Written "512 * 1024 * 1024"]
  have 1: "upload_file_to_openai upload_ok Written (cv_of_size 99) fresh = (None, fresh)"
    using a by (simp add: cv_of_size_def)
  have 2: "upload_file_to_openai upload_ok Written (cv_of_size (512 * 1024 * 1024 + 1)) fresh = (None, fresh)"
    using b by (simp add: cv_of_size_def)
  have 3: "events (snd (upload_file_to_openai upload_ok Written (cv_of_size (512 * 1024 * 1024)) fresh)) =
     [UploadCall ''cv.pdf'']"
    using c by (simp add: cv_of_size_def fresh_def)
  from 1 2 3 show ?thesis by simp
qed

text \<open>
  The claim as stated fails at 100 bytes: on a cache miss the file is uploaded and its
  handle returned.
\<close>

theorem upload_100_bytes_counterexample:
  "uploaded_files_cache fresh (name (cv_of_size 100)) = None \<and>
   st_size (cv_of_size 100) = 100 \<and>
   fst (upload_file_to_openai upload_ok Written (cv_of_size 100) fresh) = Some ''file-cv.pdf'' \<and>
   events (snd (upload_file_to_openai upload_ok Written (cv_of_size 100) fresh)) = [UploadCall ''cv.pdf'']"
  by (simp add: upload_file_to_openai_def Let_def fresh_def cv_of_size_def upload_ok_def save_cache_def emit_def)

text \<open>
  C10. On a cache hit the cached handle is returned whatever the size of the file is, 0
  bytes or more than 512 MiB included: the size is only looked at on a miss.
\<close>

theorem cache_hit_skips_size_check:
  assumes "uploaded_files_cache s (name file_path) = Some h"
  shows "\<forall>sz. upload_file_to_openai create written (file_path\<lparr>st_size := sz\<rparr>) s = (Some h, s)"
  using assms by (simp add: upload_hit)

theorem cache_hit_skips_size_check_witness:
  "uploaded_files_cache cached (name (cv_of_size 0)) = Some ''file-cached'' \<and>
   upload_file_to_openai upload_ok Written (cv_of_size 0) cached = (Some ''file-cached'', cached) \<and>
   upload_file_to_openai upload_ok Written (cv_of_size (512 * 1024 * 1024 + 1)) cached =
     (Some ''file-cached'', cached) \<and>
   upload_file_to_openai upload_ok Written (cv_of_size 0) fresh = (None, fresh)"
proof -
  have h: "uploaded_files_cache cached (name (cv_of_size 0)) = Some ''file-cached''"
    by (simp add: cached_def cv_of_size_def)
  note t = cache_hit_skips_size_check[OF h, of upload_ok Written]
  have e: "\<And>n. (cv_of_size 0)\<lparr>st_size := n\<rparr> = cv_of_size n"
    by (simp add: cv_of_size_def)
  from t have 1: "upload_file_to_openai upload_ok Written (cv_of_size 0) cached = (Some ''file-cached'', cached)"
    and 2: "upload_file_to_openai upload_ok Written (cv_of_size (512 * 1024 * 1024 + 1)) cached =
     (Some ''file-cached'', cached)"
    unfolding e by blast+
  have 3: "upload_file_to_openai upload_ok Written (cv_of_size 0) fresh = (None, fresh)"
    by (simp add: upload_file_to_openai_def fresh_def cv_of_size_def)
  from h 1 2 3 show ?thesis by simp
qed



text \<open>
  C5, as amended. For a text that opens with a brace and closes with one, prose before it
  that holds no opening brace and prose after it that holds no closing brace change
  nothing: the reply with the prose parses, and validates, to the same result as the bare
  text, for every decoder. The service variant, which strips the reply first, returns the
  decoded object in both cases when the decoder accepts the text.
\<close>

theorem parse_ignores_brace_free_prose:
  assumes "CHR ''{'' \<notin> set pre" "CHR ''}'' \<notin> set post"
  shows "parse_json loads (pre @ (CHR ''{'' # body @ [CHR ''}'']) @ post) =
           parse_json loads (CHR ''{'' # body @ [CHR ''}'']) \<and>
         validate_json_response loads (pre @ (CHR ''{'' # body @ [CHR ''}'']) @ post) =
           validate_json_response loads (CHR ''{'' # body @ [CHR ''}'']) \<and>
         (\<forall>v. loads (CHR ''{'' # body @ [CHR ''}'']) = Inr v \<longrightarrow>
            app_parse_reply loads (pre @ (CHR ''{'' # body @ [CHR ''}'']) @ post) = v \<and>
            app_parse_reply loads (CHR ''{'' # body @ [CHR ''}'']) = v)"
proof -
  let ?J = "CHR ''{'' # body @ [CHR ''}'']"
  have p: "parse_json loads (pre @ ?J @ post) = parse_json loads ?J"
    by (simp only: parse_json_def extract_json_embedded[OF assms] extract_json_bare)
  have v: "validate_json_response loads (pre @ ?J @ post) = validate_json_response loads ?J"
    by (simp only: validate_json_response_def p)
  have J: "?J \<noteq> []" "\<not> py_isspace (hd ?J)" "\<not> py_isspace (last ?J)"
    by (simp_all add: brace_not_space)
  have s1: "py_strip (pre @ ?J @ post) =
            dropWhile py_isspace pre @ ?J @ rev (dropWhile py_isspace (rev post))"
    by (rule py_strip_embedded[OF J])
  have s2: "py_strip ?J = ?J"
    by (rule py_strip_id[OF J])
  have b1: "CHR ''{'' \<notin> set (dropWhile py_isspace pre)"
    using assms(1) set_dropWhileD by fastforce
  have b2: "CHR ''}'' \<notin> set (rev (dropWhile py_isspace (rev post)))"
    using assms(2) set_dropWhileD by fastforce
  have e: "extract_json (py_strip (pre @ ?J @ post)) = Inr ?J"
    unfolding s1 by (rule extract_json_embedded[OF b1 b2])
  have a: "\<forall>v. loads ?J = Inr v \<longrightarrow>
            app_parse_reply loads (pre @ ?J @ post) = v \<and> app_parse_reply loads ?J = v"
    by (simp add: app_parse_reply_def Let_def parse_json_def e s2 extract_json_bare
          del: append.simps append_Cons)
  from p v a show ?thesis by blast
qed

theorem parse_ignores_brace_free_prose_witness:
  \<open>parse_json json_loads fenced_reply =
     Inr (PDict [(''score'', PInt 7), (''tags'', PList [PStr ''a''])]) \<and>
   parse_json json_loads ''{"score": 7, "tags": ["a"]}'' =
     Inr (PDict [(''score'', PInt 7), (''tags'', PList [PStr ''a''])]) \<and>
   app_parse_reply json_loads fenced_reply =
     PDict [(''score'', PInt 7), (''tags'', PList [PStr ''a''])]\<close>
proof -
  have b: \<open>''{"score": 7, "tags": ["a"]}'' = CHR ''{'' # ''"score": 7, "tags": ["a"]'' @ [CHR ''}'']\<close>
    by simp
  have h: "CHR ''{'' \<notin> set ''Here is the JSON you asked for: ''"
          "CHR ''}'' \<notin> set '' Let me know if you need more.''"
    by simp_all
  note t = parse_ignores_brace_free_prose[OF h, of json_loads \<open>''"score": 7, "tags": ["a"]''\<close>,
      folded b]
  have q: \<open>parse_json json_loads ''{"score": 7, "tags": ["a"]}'' =
     Inr (PDict [(''score'', PInt 7), (''tags'', PList [PStr ''a''])])\<close>
    using extract_json_bare[of \<open>''"score": 7, "tags": ["a"]''\<close>, folded b]
    by (simp only: parse_json_def loads_small sum.case)
  from t loads_small q show ?thesis
    unfolding fenced_reply_def by metis
qed

text \<open>
  The claim as stated fails for prose that holds a brace: the text from the first opening
  brace is no longer the object, and the decoder rejects it.
\<close>

theorem prose_with_braces_counterexample:
  \<open>json_loads ''{"score": 7, "tags": ["a"]}'' =
     Inr (PDict [(''score'', PInt 7), (''tags'', PList [PStr ''a''])]) \<and>
   parse_json json_loads ''{"score": 7, "tags": ["a"]}'' =
     Inr (PDict [(''score'', PInt 7), (''tags'', PList [PStr ''a''])]) \<and>
   parse_json json_loads braces_in_prose = Inl (JSONDecodeError ''Expecting value'') \<and>
   parse_json json_loads braces_in_prose \<noteq> parse_json json_loads ''{"score": 7, "tags": ["a"]}''\<close>
proof -
  have 1: \<open>parse_json json_loads ''{"score": 7, "tags": ["a"]}'' =
     Inr (PDict [(''score'', PInt 7), (''tags'', PList [PStr ''a''])])\<close>
    by code_simp
  have 2: "parse_json json_loads braces_in_prose = Inl (JSONDecodeError ''Expecting value'')"
    by code_simp
  from 1 2 loads_small show ?thesis by simp
qed

text \<open>
  C1. What the code does where the claim asks for status \<open>error\<close>: an uploaded file
  whose two replies fail validation, and one whose round trip raises a network error, both
  get the fallback payload with status \<open>success\<close> and keep their handle. The sibling
  path, a failed upload, gets the same payload with status \<open>error\<close>.
\<close>

theorem process_cv_fallback_status:
  "fst (process_cv json_loads upload_ok Written chat_all_invalid (cv_of_size 2048) fresh) =
     Inr \<lparr>filename = ''cv.pdf'', r_score = 50, r_summary = fallback_summary ''cv.pdf'' None,
          r_tags = ''manual_review_needed, analysis_incomplete, requires_human_assessment'',
          status = ''success'', file_id = Some ''file-cv.pdf''\<rparr> \<and>
   fst (process_cv json_loads upload_ok Written chat_network_down (cv_of_size 2048) fresh) =
     Inr \<lparr>filename = ''cv.pdf'', r_score = 50,
          r_summary = fallback_summary ''cv.pdf'' (Some ''Connection error.''),
          r_tags = ''manual_review_needed, analysis_incomplete, requires_human_assessment'',
          status = ''success'', file_id = Some ''file-cv.pdf''\<rparr> \<and>
   fst (process_cv json_loads upload_fails Written chat_all_invalid (cv_of_size 2048) fresh) =
     Inr \<lparr>filename = ''cv.pdf'', r_score = 50,
          r_summary = fallback_summary ''cv.pdf'' (Some ''Failed to upload file to OpenAI''),
          r_tags = ''manual_review_needed, analysis_incomplete, requires_human_assessment'',
          status = ''error'', file_id = None\<rparr>"
proof -
  have n: "name (cv_of_size 2048) = ''cv.pdf''" by (simp add: cv_of_size_def)
  have 1: "fst (process_cv json_loads upload_ok Written chat_all_invalid (cv_of_size 2048) fresh) =
     Inr \<lparr>filename = ''cv.pdf'', r_score = 50, r_summary = fallback_summary ''cv.pdf'' None,
          r_tags = ''manual_review_needed, analysis_incomplete, requires_human_assessment'',
          status = ''success'', file_id = Some ''file-cv.pdf''\<rparr>"
    by (simp add: process_cv_def process_cv_try_def upload_fresh_ok n chat_all_invalid_def
          analyze_all_invalid create_fallback_response_def join_fallback_tags)
  have 2: "fst (process_cv json_loads upload_ok Written chat_network_down (cv_of_size 2048) fresh) =
     Inr \<lparr>filename = ''cv.pdf'', r_score = 50,
          r_summary = fallback_summary ''cv.pdf'' (Some ''Connection error.''),
          r_tags = ''manual_review_needed, analysis_incomplete, requires_human_assessment'',
          status = ''success'', file_id = Some ''file-cv.pdf''\<rparr>"
    by (simp add: process_cv_def process_cv_try_def upload_fresh_ok n chat_network_down_def
          analyze_network_down create_fallback_response_def join_fallback_tags)
  have 3: "fst (process_cv json_loads upload_fails Written chat_all_invalid (cv_of_size 2048) fresh) =
     Inr \<lparr>filename = ''cv.pdf'', r_score = 50,
          r_summary = fallback_summary ''cv.pdf'' (Some ''Failed to upload file to OpenAI''),
          r_tags = ''manual_review_needed, analysis_incomplete, requires_human_assessment'',
          status = ''error'', file_id = None\<rparr>"
    by (simp add: process_cv_def process_cv_try_def upload_fresh_fails n
          create_fallback_response_def join_fallback_tags Let_def)
  from 1 2 3 show ?thesis by simp
qed

text \<open>
  C9. What the code does on an empty corpus: with a usable key and a job description of at
  least 100 characters, a run that finds no eligible file prints its two lines, does
  nothing else, and the process ends with exit status 0. The sibling configuration fault,
  a missing job description, ends with exit status 1.
\<close>

theorem empty_corpus_exit_status:
  assumes "env_api_key w \<noteq> Some []" "job_txt w = Some text" "100 \<le> length (py_strip text)"
    "get_cv_files (uploads_dir w) = []"
  shows "main loads w disk =
           (0, [Print ''No CV files found in uploads'',
                Print ''Please add .pdf or .docx files to the uploads folder'']) \<and>
         main loads (w\<lparr>job_txt := None\<rparr>) disk =
           (1, [Print ''job.txt not found'',
                Print ''Please create job.txt with your job description''])"
proof -
  have k: "(case env_api_key w of None \<Rightarrow> default_api_key | Some k \<Rightarrow> k) \<noteq> []"
    using assms(1) default_api_key_nonempty by (cases "env_api_key w") auto
  have l: "\<not> length (py_strip text) < 100" using assms(3) by simp
  show ?thesis
    using k l
    by (simp add: main_def init_analyzer_def Let_def run_analysis_def load_job_description_def
          assms(2) assms(4) emit_def)
qed

theorem empty_corpus_exit_status_witness:
  "get_cv_files (uploads_dir empty_world) = [] \<and>
   fst (main json_loads empty_world Missing) = 0 \<and>
   snd (main json_loads empty_world Missing) =
     [Print ''No CV files found in uploads'',
      Print ''Please add .pdf or .docx files to the uploads folder''] \<and>
   fst (main json_loads (empty_world\<lparr>job_txt := None\<rparr>) Missing) = 1"
proof -
  have a: "env_api_key empty_world \<noteq> Some []"
    "job_txt empty_world = Some (replicate 120 CHR ''j'')"
    by (simp_all add: empty_world_def)
  have "\<not> py_isspace CHR ''j''" by (simp add: py_isspace_def)
  then have b: "100 \<le> length (py_strip (replicate 120 CHR ''j''))"
    by (simp add: py_strip_replicate)
  from empty_corpus_exit_status[OF a b scan_empty_world, of json_loads Missing]
  show ?thesis using scan_empty_world by simp
qed

end
